theory Spec2Isabelle
  imports Complex_Main
begin

section \<open>JavaScript values\<close>

text \<open>
  The request bodies and the JSON collections hold JavaScript values. The numbers the
  core handles (ids, quantities, reorder points) are integers inside the safe-integer
  range, where JavaScript's arithmetic on doubles is exact; they are modelled as
  \<open>int\<close>. Unit costs are decimals and are modelled as exact rationals. A value of a
  request body is \<open>undefined\<close>, \<open>null\<close>, a boolean, an integer or a string; fractional
  numbers, arrays and objects in a request body are not modelled.
\<close>

datatype jsval = JUndefined | JNull | JBool bool | JNum int | JStr string

text \<open>A request body: destructuring a missing key yields \<open>undefined\<close>.\<close>

type_synonym jsobj = "string \<Rightarrow> jsval"

definition emptyBody :: jsobj where
  "emptyBody = (\<lambda>k. JUndefined)"

text \<open>Truthiness, as used by \<open>!x\<close>, \<open>x || y\<close> and \<open>x ? a : b\<close>.\<close>

fun truthy :: "jsval \<Rightarrow> bool" where
  "truthy JUndefined = False"
| "truthy JNull = False"
| "truthy (JBool b) = b"
| "truthy (JNum n) = (n \<noteq> 0)"
| "truthy (JStr s) = (s \<noteq> [])"

subsection \<open>Number to string\<close>

text \<open>\<open>String(n)\<close> and template interpolation of an integer: its decimal digits.\<close>

fun showNat :: "nat \<Rightarrow> string" where
  "showNat n =
     (if n < 10 then [char_of (48 + n)]
      else showNat (n div 10) @ [char_of (48 + n mod 10)])"

declare showNat.simps [simp del]

definition showInt :: "int \<Rightarrow> string" where
  "showInt i = (if i < 0 then CHR ''-'' # showNat (nat (- i)) else showNat (nat i))"

fun toString :: "jsval \<Rightarrow> string" where
  "toString JUndefined = ''undefined''"
| "toString JNull = ''null''"
| "toString (JBool b) = (if b then ''true'' else ''false'')"
| "toString (JNum n) = showInt n"
| "toString (JStr s) = s"

subsection \<open>\<open>parseInt\<close>\<close>

text \<open>
  \<open>parseInt(v, 10)\<close> converts its argument to a string, skips leading white space, reads
  an optional sign and then the longest prefix of decimal digits; without a digit the
  result is \<open>NaN\<close>, which is \<open>None\<close> here, so that \<open>isNaN(x)\<close> is \<open>x = None\<close>.
  Strings are byte strings: the white space recognised is the ASCII white space.
\<close>

definition isWhiteSpace :: "char \<Rightarrow> bool" where
  "isWhiteSpace c = (c \<in> set [CHR 0x20, CHR 0x09, CHR 0x0A, CHR 0x0B, CHR 0x0C, CHR 0x0D])"

definition digitValue :: "char \<Rightarrow> nat option" where
  "digitValue c =
     (let n = (of_char c :: nat) in
      if 48 \<le> n \<and> n \<le> 57 then Some (n - 48)
      else if 97 \<le> n \<and> n \<le> 122 then Some (n - 87)
      else if 65 \<le> n \<and> n \<le> 90 then Some (n - 55)
      else None)"

fun parseDigits :: "nat \<Rightarrow> string \<Rightarrow> nat option \<Rightarrow> nat option" where
  "parseDigits radix [] acc = acc"
| "parseDigits radix (c # cs) acc =
     (case digitValue c of
        None \<Rightarrow> acc
      | Some d \<Rightarrow>
          if d < radix
          then parseDigits radix cs (Some ((case acc of None \<Rightarrow> 0 | Some a \<Rightarrow> a * radix) + d))
          else acc)"

definition stripSign :: "string \<Rightarrow> bool \<times> string" where
  "stripSign s =
     (case s of
        [] \<Rightarrow> (False, s)
      | c # cs \<Rightarrow>
          if c = CHR ''-'' then (True, cs)
          else if c = CHR ''+'' then (False, cs)
          else (False, s))"

definition signed :: "bool \<Rightarrow> nat option \<Rightarrow> int option" where
  "signed neg m = (case m of None \<Rightarrow> None | Some n \<Rightarrow> Some (if neg then - int n else int n))"


text \<open>
  \<open>parseInt(v)\<close> without a radix: a \<open>0x\<close> or \<open>0X\<close> prefix selects radix 16, anything else
  radix 10.
\<close>

definition parseInt :: "jsval \<Rightarrow> int option" where
  "parseInt v =
     (let (neg, s) = stripSign (dropWhile isWhiteSpace (toString v))
      in if take 2 s = ''0x'' \<or> take 2 s = ''0X''
         then signed neg (parseDigits 16 (drop 2 s) None)
         else signed neg (parseDigits 10 s None))"


subsection \<open>The quotient \<open>quantity / reorderPoint\<close>\<close>

text \<open>
  Division of two integers in JavaScript: a zero divisor gives \<open>NaN\<close> (for \<open>0 / 0\<close>)
  or an infinity; otherwise the quotient, kept here as an exact rational. Every comparison
  with \<open>NaN\<close> is false.
\<close>

datatype jsratio = NaN | PosInfinity | NegInfinity | Finite rat

definition js_div :: "int \<Rightarrow> int \<Rightarrow> jsratio" where
  "js_div a b =
     (if b = 0 then (if a = 0 then NaN else if 0 < a then PosInfinity else NegInfinity)
      else Finite (of_int a / of_int b))"

fun js_eq :: "jsratio \<Rightarrow> rat \<Rightarrow> bool" where
  "js_eq (Finite x) c = (x = c)"
| "js_eq _ c = False"

fun js_less :: "jsratio \<Rightarrow> rat \<Rightarrow> bool" where
  "js_less (Finite x) c = (x < c)"
| "js_less NegInfinity c = True"
| "js_less _ c = False"

fun js_greater :: "jsratio \<Rightarrow> rat \<Rightarrow> bool" where
  "js_greater (Finite x) c = (x > c)"
| "js_greater PosInfinity c = True"
| "js_greater _ c = False"

section \<open>Status classifier\<close>

text \<open>The object returned by \<open>getStockStatus\<close> in \<open>utils/helpers.js\<close>.\<close>

record stock_status =
  status :: string
  label :: string
  color :: string
  severity :: int

text \<open>The two API copies return one more field, \<open>priority\<close>.\<close>

record api_stock_status = stock_status +
  priority :: string

text \<open>\<open>getStockStatus\<close> of \<open>utils/helpers.js\<close>, used by the pages and by \<open>StockStatusChip\<close>.\<close>

definition getStockStatus :: "int \<Rightarrow> int \<Rightarrow> stock_status" where
  "getStockStatus quantity reorderPoint =
     (let ratio = js_div quantity reorderPoint in
      if js_eq ratio 0 then
        \<lparr>status = ''out'', label = ''Out of Stock'', color = ''error'', severity = 4\<rparr>
      else if js_less ratio (1/2) then
        \<lparr>status = ''critical'', label = ''Critical'', color = ''error'', severity = 3\<rparr>
      else if js_less ratio 1 then
        \<lparr>status = ''low'', label = ''Low Stock'', color = ''warning'', severity = 2\<rparr>
      else if js_greater ratio 3 then
        \<lparr>status = ''overstocked'', label = ''Overstocked'', color = ''info'', severity = 0\<rparr>
      else
        \<lparr>status = ''adequate'', label = ''Adequate'', color = ''success'', severity = 1\<rparr>)"

text \<open>\<open>getStockStatus\<close> of \<open>pages/api/alerts/index.js\<close>.\<close>

definition alerts_getStockStatus :: "int \<Rightarrow> int \<Rightarrow> api_stock_status" where
  "alerts_getStockStatus quantity reorderPoint =
     (let ratio = js_div quantity reorderPoint in
      if js_eq ratio 0 then
        \<lparr>status = ''out'', label = ''Out of Stock'', color = ''error'', severity = 4,
         priority = ''critical''\<rparr>
      else if js_less ratio (1/2) then
        \<lparr>status = ''critical'', label = ''Critical'', color = ''error'', severity = 3,
         priority = ''high''\<rparr>
      else if js_less ratio 1 then
        \<lparr>status = ''low'', label = ''Low Stock'', color = ''warning'', severity = 2,
         priority = ''medium''\<rparr>
      else if js_greater ratio 3 then
        \<lparr>status = ''overstocked'', label = ''Overstocked'', color = ''info'', severity = 0,
         priority = ''low''\<rparr>
      else
        \<lparr>status = ''adequate'', label = ''Adequate'', color = ''success'', severity = 1,
         priority = ''none''\<rparr>)"

text \<open>\<open>getStockStatus\<close> of \<open>pages/api/alerts/[productId].js\<close>.\<close>

definition alertById_getStockStatus :: "int \<Rightarrow> int \<Rightarrow> api_stock_status" where
  "alertById_getStockStatus quantity reorderPoint =
     (let ratio = js_div quantity reorderPoint in
      if js_eq ratio 0 then
        \<lparr>status = ''out'', label = ''Out of Stock'', color = ''error'', severity = 4,
         priority = ''critical''\<rparr>
      else if js_less ratio (1/2) then
        \<lparr>status = ''critical'', label = ''Critical'', color = ''error'', severity = 3,
         priority = ''high''\<rparr>
      else if js_less ratio 1 then
        \<lparr>status = ''low'', label = ''Low Stock'', color = ''warning'', severity = 2,
         priority = ''medium''\<rparr>
      else if js_greater ratio 3 then
        \<lparr>status = ''overstocked'', label = ''Overstocked'', color = ''info'', severity = 0,
         priority = ''low''\<rparr>
      else
        \<lparr>status = ''adequate'', label = ''Adequate'', color = ''success'', severity = 1,
         priority = ''none''\<rparr>)"

text \<open>
  The products page colours its progress bar by a helper of its own, from the percentage
  \<open>product.reorderPoint > 0 ? (totalQuantity / product.reorderPoint) * 100 : 0\<close>.
\<close>

definition stockPercentage :: "int \<Rightarrow> int \<Rightarrow> rat" where
  "stockPercentage totalQty reorderPoint =
     (if reorderPoint > 0 then of_int totalQty / of_int reorderPoint * 100 else 0)"

definition getStockStatusColor :: "rat \<Rightarrow> string" where
  "getStockStatusColor percentage =
     (if percentage = 0 then ''error''
      else if percentage < 50 then ''error''
      else if percentage < 100 then ''warning''
      else if percentage < 200 then ''success''
      else ''info'')"

section \<open>Reorder recommendation\<close>

text \<open>The object returned by \<open>getReorderRecommendation\<close> in \<open>pages/api/alerts/index.js\<close>.\<close>

record recommendation =
  recommendedQuantity :: int
  estimatedCost :: rat
  urgency :: string
  targetStock :: int

text \<open>
  \<open>currentStock < reorderPoint * 0.5\<close> compares an integer with half an integer; it is
  written over the rationals.
\<close>

definition getReorderRecommendation :: "int \<Rightarrow> int \<Rightarrow> rat \<Rightarrow> recommendation option" where
  "getReorderRecommendation currentStock reorderPoint unitCost =
     (if currentStock \<ge> reorderPoint then None
      else
        let targetStock = reorderPoint * 2;
            recommendedQuantity = targetStock - currentStock;
            estimatedCost = of_int recommendedQuantity * unitCost
        in Some \<lparr>recommendedQuantity = recommendedQuantity,
                 estimatedCost = estimatedCost,
                 urgency = (if (of_int currentStock :: rat) < of_int reorderPoint * (1/2)
                            then ''critical'' else ''normal''),
                 targetStock = targetStock\<rparr>)"



section \<open>Record store\<close>

text \<open>
  The collections of \<open>data/*.json\<close>. Timestamps are the ISO strings produced by
  \<open>new Date().toISOString()\<close>; the handlers receive the current one as an argument.
\<close>

type_synonym timestamp = string

record product =
  p_id :: int
  p_sku :: string
  p_name :: string
  p_category :: string
  p_unitCost :: rat
  p_reorderPoint :: int

record warehouse =
  w_id :: int
  w_code :: string
  w_name :: string
  w_location :: string

record stock_record =
  s_id :: int
  s_productId :: int
  s_warehouseId :: int
  s_quantity :: int
  s_createdAt :: timestamp
  s_updatedAt :: timestamp

record transfer =
  t_id :: int
  t_productId :: int
  t_fromWarehouseId :: int
  t_toWarehouseId :: int
  t_quantity :: int
  t_notes :: string
  t_status :: string
  t_createdAt :: timestamp

record alert_record =
  a_id :: int
  a_productId :: int
  a_acknowledged :: bool
  a_acknowledgedAt :: "timestamp option"
  a_dismissed :: bool
  a_dismissedAt :: "timestamp option"
  a_notes :: jsval
  a_createdAt :: timestamp
  a_updatedAt :: "timestamp option"

record db =
  products :: "product list"
  warehouses :: "warehouse list"
  stock :: "stock_record list"
  transfers :: "transfer list"
  alerts :: "alert_record list"

text \<open>\<open>Array.prototype.findIndex\<close>; \<open>-1\<close> is \<open>None\<close>. \<open>Array.prototype.find\<close> is \<open>find\<close>.\<close>

fun findIndex :: "('a \<Rightarrow> bool) \<Rightarrow> 'a list \<Rightarrow> nat option" where
  "findIndex P [] = None"
| "findIndex P (x # xs) = (if P x then Some 0 else map_option Suc (findIndex P xs))"

text \<open>\<open>xs.length ? Math.max(...xs.map(f)) + 1 : 1\<close>, the next free id.\<close>

definition nextId :: "int list \<Rightarrow> int" where
  "nextId ids = (case ids of [] \<Rightarrow> 1 | i # rest \<Rightarrow> fold max rest i + 1)"

text \<open>
  An error response: the HTTP status with the \<open>error\<close> and \<open>message\<close> fields of its body,
  and the \<open>available\<close>, \<open>details\<close> or \<open>existingId\<close> field where the body has one.
\<close>

datatype failure =
    Fail nat string string
  | FailAvailable nat string string int
  | FailDetails nat string "string list"
  | FailExisting nat string string int

section \<open>Transfer engine\<close>










subsection \<open>The preconditions of a transfer\<close>








subsection \<open>Example data\<close>

text \<open>
  Scenario 1 of the specification: product 1 with 100 units at warehouse 1 and 20 at
  warehouse 2; product 2 has no stock record.
\<close>

definition product_x :: product where
  "product_x = \<lparr>p_id = 1, p_sku = ''X-1'', p_name = ''Widget'', p_category = ''Other'',
                 p_unitCost = 5/2, p_reorderPoint = 100\<rparr>"

definition product_y :: product where
  "product_y = \<lparr>p_id = 2, p_sku = ''Y-2'', p_name = ''Gadget'', p_category = ''Other'',
                 p_unitCost = 3, p_reorderPoint = 100\<rparr>"

definition warehouse_a :: warehouse where
  "warehouse_a = \<lparr>w_id = 1, w_code = ''A'', w_name = ''WH-A'', w_location = ''North''\<rparr>"

definition warehouse_b :: warehouse where
  "warehouse_b = \<lparr>w_id = 2, w_code = ''B'', w_name = ''WH-B'', w_location = ''South''\<rparr>"

definition example_db :: db where
  "example_db =
     \<lparr>products = [product_x, product_y],
      warehouses = [warehouse_a, warehouse_b],
      stock =
        [\<lparr>s_id = 1, s_productId = 1, s_warehouseId = 1, s_quantity = 100,
          s_createdAt = ''t0'', s_updatedAt = ''t0''\<rparr>,
         \<lparr>s_id = 2, s_productId = 1, s_warehouseId = 2, s_quantity = 20,
          s_createdAt = ''t0'', s_updatedAt = ''t0''\<rparr>],
      transfers = [],
      alerts = []\<rparr>"





section \<open>Stock ledger\<close>






section \<open>Alert tracker\<close>

subsection \<open>Applying an action\<close>

text \<open>The body of the 200 response of the POST branch.\<close>

record alert_response =
  r_alert :: alert_record
  r_persisted :: bool
  r_message :: string

text \<open>
  The \<open>switch (action)\<close> of the POST branch, on the record at \<open>alertIndex\<close>; the
  \<open>default\<close> case returns the error response, which is \<open>None\<close> here.
\<close>

definition applyAction :: "jsval \<Rightarrow> jsval \<Rightarrow> timestamp \<Rightarrow> alert_record \<Rightarrow> alert_record option" where
  "applyAction action notes now a =
     (if action = JStr ''acknowledge'' then
        Some (a\<lparr>a_acknowledged := True, a_acknowledgedAt := Some now\<rparr>)
      else if action = JStr ''unacknowledge'' then
        Some (a\<lparr>a_acknowledged := False, a_acknowledgedAt := None\<rparr>)
      else if action = JStr ''dismiss'' then
        Some (a\<lparr>a_dismissed := True, a_dismissedAt := Some now\<rparr>)
      else if action = JStr ''undismiss'' then
        Some (a\<lparr>a_dismissed := False, a_dismissedAt := None\<rparr>)
      else if action = JStr ''update_notes'' then
        Some (a\<lparr>a_notes := (if truthy notes then notes else JStr [])\<rparr>)
      else None)"

text \<open>
  The POST branch of \<open>pages/api/alerts/index.js\<close> up to the write: the checks, the
  lookup or creation of the product's record in the array read from \<open>alerts.json\<close>, and
  the action. The result is the array in memory with the index of the record, or the error
  response of an early \<open>return\<close>.
\<close>

definition alerts_post_memory ::
  "alert_record list \<Rightarrow> product list \<Rightarrow> jsobj \<Rightarrow> timestamp \<Rightarrow> failure + (alert_record list \<times> nat)" where
  "alerts_post_memory alertRecords0 prods body now =
     (let productId = body ''productId'';
          action = body ''action'';
          notes = body ''notes''
      in
      if \<not> truthy productId then
        Inl (Fail 400 ''Missing product ID'' ''Product ID is required.'')
      else
        (case find (\<lambda>p. Some (p_id p) = parseInt productId) prods of
           None \<Rightarrow> Inl (Fail 404 ''Product not found'' ''The specified product does not exist.'')
         | Some product \<Rightarrow>
             (let found = findIndex (\<lambda>a. Some (a_productId a) = parseInt productId) alertRecords0;
                  alertRecords =
                    (case found of
                       None \<Rightarrow>
                         alertRecords0 @ [\<lparr>a_id = nextId (map a_id alertRecords0),
                                           a_productId = the (parseInt productId),
                                           a_acknowledged = False,
                                           a_acknowledgedAt = None,
                                           a_dismissed = False,
                                           a_dismissedAt = None,
                                           a_notes = JStr [],
                                           a_createdAt = now,
                                           a_updatedAt = None\<rparr>]
                     | Some i \<Rightarrow> alertRecords0);
                  alertIndex = (case found of None \<Rightarrow> length alertRecords - 1 | Some i \<Rightarrow> i)
              in (case applyAction action notes now (alertRecords ! alertIndex) of
                    None \<Rightarrow>
                      Inl (Fail 400 ''Invalid action''
                             ''Valid actions are: acknowledge, unacknowledge, dismiss, undismiss, update_notes'')
                  | Some changed \<Rightarrow>
                      Inr (alertRecords[alertIndex := changed\<lparr>a_updatedAt := Some now\<rparr>],
                           alertIndex)))))"

text \<open>
  The whole POST branch: after the update in memory the array is written and the record
  is returned. \<open>writeOk\<close> is the result of \<open>writeJsonFile\<close>, which is false where the file
  system is read-only; the handler then still answers 200 and nothing is persisted. An
  early \<open>return\<close> writes nothing.
\<close>

definition alerts_post :: "db \<Rightarrow> jsobj \<Rightarrow> timestamp \<Rightarrow> bool \<Rightarrow> (failure + alert_response) \<times> db" where
  "alerts_post d body now writeOk =
     (case alerts_post_memory (alerts d) (products d) body now of
        Inl f \<Rightarrow> (Inl f, d)
      | Inr (alertRecords, alertIndex) \<Rightarrow>
          (Inr \<lparr>r_alert = alertRecords ! alertIndex,
                r_persisted = writeOk,
                r_message =
                  (if writeOk then ''Alert updated successfully''
                   else ''Alert updated for this session (changes not persisted on serverless deployment)'')\<rparr>,
           if writeOk then d\<lparr>alerts := alertRecords\<rparr> else d))"

text \<open>An alert record without its timestamps; of the two nullable ones, whether they are set.\<close>

definition alert_core :: "alert_record \<Rightarrow> int \<times> int \<times> bool \<times> bool \<times> bool \<times> bool \<times> jsval" where
  "alert_core a =
     (a_id a, a_productId a, a_acknowledged a, a_acknowledgedAt a \<noteq> None,
      a_dismissed a, a_dismissedAt a \<noteq> None, a_notes a)"

text \<open>The five actions the \<open>switch\<close> knows.\<close>

definition valid_actions :: "jsval set" where
  "valid_actions =
     {JStr ''acknowledge'', JStr ''unacknowledge'', JStr ''dismiss'', JStr ''undismiss'',
      JStr ''update_notes''}"

subsection \<open>Listing the alerts\<close>

record warehouse_breakdown =
  b_warehouseId :: int
  b_warehouseName :: string
  b_warehouseCode :: string
  b_warehouseLocation :: string
  b_quantity :: int

text \<open>
  An entry of \<open>productAlerts\<close>. Its \<open>id\<close> is the alert record's number or the string
  \<open>alert-<product id>\<close>; \<open>acknowledgedBy\<close> is a field no handler writes.
\<close>

record alert_view =
  v_id :: jsval
  v_productId :: int
  v_product :: product
  v_currentStock :: int
  v_stockStatus :: api_stock_status
  v_reorderRecommendation :: "recommendation option"
  v_warehouseBreakdown :: "warehouse_breakdown list"
  v_acknowledged :: bool
  v_acknowledgedAt :: "timestamp option"
  v_acknowledgedBy :: jsval
  v_dismissed :: bool
  v_dismissedAt :: "timestamp option"
  v_notes :: jsval
  v_lastUpdated :: timestamp

record summary =
  total :: nat
  critical :: nat
  low :: nat
  adequate :: nat
  overstocked :: nat
  needsAttention :: nat
  totalReorderValue :: rat

text \<open>The query parameters \<open>status\<close>, \<open>category\<close> and \<open>acknowledged\<close>; \<open>None\<close> is an absent one.\<close>

record alerts_query =
  q_status :: "string option"
  q_category :: "string option"
  q_acknowledged :: "string option"

text \<open>\<open>s.split(c)\<close> for a one-character separator.\<close>

fun split_on :: "char \<Rightarrow> string \<Rightarrow> string list" where
  "split_on c [] = [[]]"
| "split_on c (x # xs) =
     (if x = c then [] # split_on c xs
      else (case split_on c xs of [] \<Rightarrow> [[x]] | w # ws \<Rightarrow> (x # w) # ws))"

definition warehouseBreakdown :: "warehouse list \<Rightarrow> stock_record \<Rightarrow> warehouse_breakdown" where
  "warehouseBreakdown whs s =
     (let warehouse = find (\<lambda>w. w_id w = s_warehouseId s) whs in
      \<lparr>b_warehouseId = s_warehouseId s,
       b_warehouseName =
         (case warehouse of None \<Rightarrow> ''Unknown''
          | Some w \<Rightarrow> if w_name w \<noteq> [] then w_name w else ''Unknown''),
       b_warehouseCode = (case warehouse of None \<Rightarrow> [] | Some w \<Rightarrow> w_code w),
       b_warehouseLocation = (case warehouse of None \<Rightarrow> [] | Some w \<Rightarrow> w_location w),
       b_quantity = s_quantity s\<rparr>)"

text \<open>The function mapped over \<open>products\<close> in the GET branch.\<close>

definition productAlert :: "db \<Rightarrow> timestamp \<Rightarrow> product \<Rightarrow> alert_view" where
  "productAlert d now product =
     (let productStock = filter (\<lambda>s. s_productId s = p_id product) (stock d);
          totalQty = foldl (\<lambda>sum s. sum + s_quantity s) 0 productStock;
          stockStatus = alerts_getStockStatus totalQty (p_reorderPoint product);
          reorderRecommendation =
            getReorderRecommendation totalQty (p_reorderPoint product) (p_unitCost product);
          existingAlert = find (\<lambda>a. a_productId a = p_id product) (alerts d)
      in \<lparr>v_id =
            (case existingAlert of
               None \<Rightarrow> JStr (''alert-'' @ showInt (p_id product))
             | Some a \<Rightarrow> if a_id a \<noteq> 0 then JNum (a_id a)
                         else JStr (''alert-'' @ showInt (p_id product))),
          v_productId = p_id product,
          v_product = product,
          v_currentStock = totalQty,
          v_stockStatus = stockStatus,
          v_reorderRecommendation = reorderRecommendation,
          v_warehouseBreakdown = map (warehouseBreakdown (warehouses d)) productStock,
          v_acknowledged = (case existingAlert of None \<Rightarrow> False | Some a \<Rightarrow> a_acknowledged a),
          v_acknowledgedAt = (case existingAlert of None \<Rightarrow> None | Some a \<Rightarrow> a_acknowledgedAt a),
          v_acknowledgedBy = JNull,
          v_dismissed = (case existingAlert of None \<Rightarrow> False | Some a \<Rightarrow> a_dismissed a),
          v_dismissedAt = (case existingAlert of None \<Rightarrow> None | Some a \<Rightarrow> a_dismissedAt a),
          v_notes =
            (case existingAlert of None \<Rightarrow> JStr []
             | Some a \<Rightarrow> if truthy (a_notes a) then a_notes a else JStr []),
          v_lastUpdated = now\<rparr>)"

text \<open>
  The GET branch of \<open>pages/api/alerts/index.js\<close>: the alerts, sorted by severity with
  the worst first (the sort is stable) and then filtered, and the summary.
\<close>

definition alerts_get :: "db \<Rightarrow> alerts_query \<Rightarrow> timestamp \<Rightarrow> alert_view list \<times> summary" where
  "alerts_get d query now =
     (let productAlerts =
            sort_key (\<lambda>a. - severity (v_stockStatus a)) (map (productAlert d now) (products d));
          filtered1 =
            (case q_status query of
               None \<Rightarrow> productAlerts
             | Some st \<Rightarrow>
                 if st \<noteq> []
                 then filter (\<lambda>a. status (v_stockStatus a) \<in> set (split_on CHR '','' st)) productAlerts
                 else productAlerts);
          filtered2 =
            (case q_category query of
               None \<Rightarrow> filtered1
             | Some c \<Rightarrow>
                 if c \<noteq> []
                 then filter (\<lambda>a. p_category (v_product a) = c) filtered1
                 else filtered1);
          filteredAlerts =
            (case q_acknowledged query of
               None \<Rightarrow> filtered2
             | Some ack \<Rightarrow> filter (\<lambda>a. v_acknowledged a = (ack = ''true'')) filtered2);
          summ =
            \<lparr>total = length productAlerts,
             critical = length (filter (\<lambda>a. status (v_stockStatus a) = ''critical''
                                            \<or> status (v_stockStatus a) = ''out'') productAlerts),
             low = length (filter (\<lambda>a. status (v_stockStatus a) = ''low'') productAlerts),
             adequate = length (filter (\<lambda>a. status (v_stockStatus a) = ''adequate'') productAlerts),
             overstocked =
               length (filter (\<lambda>a. status (v_stockStatus a) = ''overstocked'') productAlerts),
             needsAttention =
               length (filter (\<lambda>a. severity (v_stockStatus a) \<ge> 2 \<and> \<not> v_acknowledged a)
                         productAlerts),
             totalReorderValue =
               foldl (\<lambda>sum a. sum + (case v_reorderRecommendation a of
                                        None \<Rightarrow> 0 | Some r \<Rightarrow> estimatedCost r))
                 0 (filter (\<lambda>a. v_reorderRecommendation a \<noteq> None) productAlerts)\<rparr>
      in (filteredAlerts, summ))"

text \<open>The query without any filter.\<close>

definition no_filters :: alerts_query where
  "no_filters = \<lparr>q_status = None, q_category = None, q_acknowledged = None\<rparr>"

section \<open>Properties of the classifier and of the recommendation\<close>

text \<open>
  C3, as the code has it. The claim reads: with \<open>reorderPoint = 0\<close> the classifier returns
  ADEQUATE for a positive quantity and OUT for quantity 0. The code divides without a guard:
  a positive quantity over 0 is \<open>Infinity\<close>, which is above the overstock threshold, so
  the status is OVERSTOCKED; \<open>0 / 0\<close> is \<open>NaN\<close>, every comparison fails and the last
  \<open>return\<close> answers ADEQUATE. The claim fails at quantity 5 and at quantity 0.
\<close>

theorem classify_zero_reorderPoint_counterexample:
  "status (getStockStatus 5 0) \<noteq> ''adequate'' \<and> status (getStockStatus 0 0) \<noteq> ''out''"
  by (simp add: getStockStatus_def js_div_def)

text \<open>
  C3, amended: for every quantity \<open>q > 0\<close>, the classifier with \<open>reorderPoint = 0\<close> returns
  OVERSTOCKED with severity 0, in the helper and in both API copies.
\<close>

theorem classify_zero_reorderPoint:
  assumes "0 < q"
  shows "getStockStatus q 0 =
           \<lparr>status = ''overstocked'', label = ''Overstocked'', color = ''info'', severity = 0\<rparr>
         \<and> status (alerts_getStockStatus q 0) = ''overstocked''
         \<and> severity (alerts_getStockStatus q 0) = 0
         \<and> status (alertById_getStockStatus q 0) = ''overstocked''
         \<and> severity (alertById_getStockStatus q 0) = 0"
  using assms
  by (simp add: getStockStatus_def alerts_getStockStatus_def alertById_getStockStatus_def
        js_div_def)

theorem classify_zero_reorderPoint_witness:
  "(0::int) < 5 \<and> status (getStockStatus 5 0) = ''overstocked''
   \<and> severity (getStockStatus 5 0) = 0"
  using classify_zero_reorderPoint [of 5] by simp

text \<open>
  C7: for every quantity \<open>\<ge> 0\<close> and reorder point \<open>> 0\<close>, the classifier of the UI
  helpers and the two classifiers of the alerts API return the same status, label and
  severity; for quantity 30 and reorder point 100 each of them answers CRITICAL, and the
  colour the products page computes there is the colour of that status.
\<close>

theorem classifiers_agree:
  assumes "0 \<le> q" and "0 < r"
  shows "status (alerts_getStockStatus q r) = status (getStockStatus q r) \<and>
         label (alerts_getStockStatus q r) = label (getStockStatus q r) \<and>
         severity (alerts_getStockStatus q r) = severity (getStockStatus q r) \<and>
         status (alertById_getStockStatus q r) = status (getStockStatus q r) \<and>
         label (alertById_getStockStatus q r) = label (getStockStatus q r) \<and>
         severity (alertById_getStockStatus q r) = severity (getStockStatus q r) \<and>
         status (getStockStatus 30 100) = ''critical'' \<and>
         status (alerts_getStockStatus 30 100) = ''critical'' \<and>
         status (alertById_getStockStatus 30 100) = ''critical'' \<and>
         getStockStatusColor (stockPercentage 30 100) = color (getStockStatus 30 100)"
  using assms
  by (simp add: getStockStatus_def alerts_getStockStatus_def alertById_getStockStatus_def
        getStockStatusColor_def stockPercentage_def Let_def js_div_def)

theorem classifiers_agree_witness:
  "(0::int) \<le> 30 \<and> (0::int) < 100 \<and>
   status (alerts_getStockStatus 30 100) = status (getStockStatus 30 100) \<and>
   status (alertById_getStockStatus 30 100) = status (getStockStatus 30 100) \<and>
   severity (alerts_getStockStatus 30 100) = severity (getStockStatus 30 100) \<and>
   status (getStockStatus 30 100) = ''critical''"
  using classifiers_agree [of 30 100] by simp



section \<open>Properties of the alert tracker\<close>

text \<open>
  C10: whatever the status, category and acknowledged filters are, the summary is the one
  computed without any filter, and its total is the number of products.
\<close>

theorem summary_ignores_filters:
  "snd (alerts_get d query now) = snd (alerts_get d no_filters now) \<and>
   summary.total (snd (alerts_get d query now)) = length (products d)"
  by (simp add: alerts_get_def Let_def)

section \<open>Properties of the transfer engine and of the ledger\<close>

subsection \<open>Lookups, updates and totals\<close>

lemma findIndex_SomeD:
  "findIndex P xs = Some i \<Longrightarrow> i < length xs \<and> P (xs ! i)"
  by (induction xs arbitrary: i) (auto split: if_splits)

lemma findIndex_snoc:
  "findIndex P (xs @ [y]) =
     (case findIndex P xs of Some i \<Rightarrow> Some i
      | None \<Rightarrow> if P y then Some (length xs) else None)"
  by (induction xs) (auto split: option.splits)









subsection \<open>What a response of the transfer handler tells\<close>











subsection \<open>Conservation\<close>



subsection \<open>No effect on failure\<close>



subsection \<open>The order of the checks\<close>




subsection \<open>Non-negative quantities\<close>

















section \<open>Properties of the alert actions\<close>

subsection \<open>Unknown actions\<close>

lemma applyAction_None:
  "action \<notin> valid_actions \<Longrightarrow> applyAction action notes now a = None"
  by (simp add: applyAction_def valid_actions_def)

lemma alerts_post_memory_unknown:
  assumes "body ''action'' \<notin> valid_actions"
  shows "\<exists>f. alerts_post_memory recs prods body now = Inl f"
  using assms
  by (simp add: alerts_post_memory_def Let_def applyAction_None split: option.splits)

lemma alerts_post_memory_invalid:
  assumes "body ''action'' \<notin> valid_actions" and "truthy (body ''productId'')"
    and "find (\<lambda>p. Some (p_id p) = parseInt (body ''productId'')) prods \<noteq> None"
  shows "alerts_post_memory recs prods body now =
           Inl (Fail 400 ''Invalid action''
                  ''Valid actions are: acknowledge, unacknowledge, dismiss, undismiss, update_notes'')"
  using assms
  by (auto simp: alerts_post_memory_def Let_def applyAction_None split: option.splits)

text \<open>
  C9: for an action that is none of the five, the handler fails and the alert store is
  what it was; the record it may have pushed onto the array in memory is not written. The
  failure is the 400 response that lists the five actions whenever the request has passed
  the two guards before the \<open>switch\<close>, that is, names an existing product.
\<close>

theorem unknown_action_rejected:
  assumes "body ''action'' \<notin> valid_actions"
  shows "snd (alerts_post d body now writeOk) = d \<and>
         (\<exists>f. fst (alerts_post d body now writeOk) = Inl f) \<and>
         (truthy (body ''productId'') \<and>
          find (\<lambda>p. Some (p_id p) = parseInt (body ''productId'')) (products d) \<noteq> None \<longrightarrow>
            fst (alerts_post d body now writeOk) =
              Inl (Fail 400 ''Invalid action''
                     ''Valid actions are: acknowledge, unacknowledge, dismiss, undismiss, update_notes''))"
proof -
  from alerts_post_memory_unknown [where body = body, OF assms] obtain f where
    f: "alerts_post_memory (alerts d) (products d) body now = Inl f" by blast
  then have "alerts_post d body now writeOk = (Inl f, d)"
    by (simp add: alerts_post_def)
  with f alerts_post_memory_invalid [where body = body and prods = "products d"
              and recs = "alerts d" and now = now, OF assms]
  show ?thesis by auto
qed

theorem unknown_action_rejected_witness:
  "(emptyBody(''productId'' := JStr ''2'', ''action'' := JStr ''archive'')) ''action'' \<notin> valid_actions \<and>
   snd (alerts_post example_db (emptyBody(''productId'' := JStr ''2'', ''action'' := JStr ''archive'')) ''t1'' True) = example_db \<and>
   fst (alerts_post example_db (emptyBody(''productId'' := JStr ''2'', ''action'' := JStr ''archive'')) ''t1'' True) =
     Inl (Fail 400 ''Invalid action''
            ''Valid actions are: acknowledge, unacknowledge, dismiss, undismiss, update_notes'')"
proof -
  have h: "(emptyBody(''productId'' := JStr ''2'', ''action'' := JStr ''archive'')) ''action'' \<notin> valid_actions"
    by (simp add: valid_actions_def)
  have g: "truthy ((emptyBody(''productId'' := JStr ''2'', ''action'' := JStr ''archive'')) ''productId'')"
    "find (\<lambda>p. Some (p_id p) = parseInt ((emptyBody(''productId'' := JStr ''2'', ''action'' := JStr ''archive'')) ''productId'')) (products example_db) \<noteq> None"
    by code_simp+
  from unknown_action_rejected
         [where body = "emptyBody(''productId'' := JStr ''2'', ''action'' := JStr ''archive'')"
            and d = example_db and now = "''t1''" and writeOk = True, OF h]
  show ?thesis
    using h g by simp
qed

subsection \<open>Idempotence\<close>

lemma find_SomeD: "find P xs = Some x \<Longrightarrow> P x"
  by (induction xs) (auto split: if_splits)

lemma findIndex_update:
  assumes "P y = P (xs ! i)"
  shows "findIndex P (xs[i := y]) = findIndex P xs"
  using assms
  by (induction xs arbitrary: i) (auto split: nat.splits)

lemma applyAction_keys:
  "applyAction act notes t a = Some c \<Longrightarrow> a_productId c = a_productId a \<and> a_id c = a_id a"
  by (auto simp: applyAction_def split: if_splits)

lemma applyAction_core_cong:
  "alert_core a' = alert_core a \<Longrightarrow>
     map_option alert_core (applyAction act notes t' a')
       = map_option alert_core (applyAction act notes t a)"
  by (auto simp: applyAction_def alert_core_def)

lemma applyAction_core_idem:
  "applyAction act notes t a = Some c \<Longrightarrow>
     map_option alert_core (applyAction act notes t' c) = Some (alert_core c)"
  by (auto simp: applyAction_def alert_core_def split: if_splits)

lemma alert_core_updatedAt [simp]:
  "alert_core (a\<lparr>a_updatedAt := u\<rparr>) = alert_core a"
  by (simp add: alert_core_def)

lemma applyAction_again:
  assumes "applyAction act notes t1 a = Some c"
  shows "\<exists>c'. applyAction act notes t2 (c\<lparr>a_updatedAt := u\<rparr>) = Some c'
              \<and> alert_core c' = alert_core c"
proof -
  have "map_option alert_core (applyAction act notes t2 (c\<lparr>a_updatedAt := u\<rparr>))
          = map_option alert_core (applyAction act notes t2 c)"
    by (rule applyAction_core_cong) simp
  also have "\<dots> = Some (alert_core c)"
    using assms by (rule applyAction_core_idem)
  finally show ?thesis by auto
qed

lemma applyAction_time:
  assumes "applyAction act nts t1 a = Some c" and "alert_core a' = alert_core a"
  shows "\<exists>c'. applyAction act nts t2 a' = Some c' \<and> alert_core c' = alert_core c"
proof -
  from assms(2) have "map_option alert_core (applyAction act nts t2 a')
                        = map_option alert_core (applyAction act nts t1 a)"
    by (rule applyAction_core_cong)
  with assms(1) show ?thesis by auto
qed

text \<open>The update in memory, when it succeeds.\<close>

lemma alerts_post_memory_Inr:
  assumes "alerts_post_memory A ps body t = Inr (A1, i)"
  obtains (created) c where
      "findIndex (\<lambda>a. Some (a_productId a) = parseInt (body ''productId'')) A = None"
      "i = length A"
      "applyAction (body ''action'') (body ''notes'') t
         \<lparr>a_id = nextId (map a_id A), a_productId = the (parseInt (body ''productId'')),
          a_acknowledged = False, a_acknowledgedAt = None, a_dismissed = False,
          a_dismissedAt = None, a_notes = JStr [], a_createdAt = t, a_updatedAt = None\<rparr>
         = Some c"
      "A1 = A @ [c\<lparr>a_updatedAt := Some t\<rparr>]"
      "Some (a_productId c) = parseInt (body ''productId'')"
    | (existing) c where
      "findIndex (\<lambda>a. Some (a_productId a) = parseInt (body ''productId'')) A = Some i"
      "applyAction (body ''action'') (body ''notes'') t (A ! i) = Some c"
      "A1 = A[i := c\<lparr>a_updatedAt := Some t\<rparr>]"
      "Some (a_productId c) = parseInt (body ''productId'')"
proof (cases "findIndex (\<lambda>a. Some (a_productId a) = parseInt (body ''productId'')) A")
  case None
  from assms obtain p where
    "find (\<lambda>p. Some (p_id p) = parseInt (body ''productId'')) ps = Some p"
    by (auto simp: alerts_post_memory_def Let_def split: if_splits option.splits)
  then have "Some (p_id p) = parseInt (body ''productId'')"
    by (rule find_SomeD)
  then have pid: "parseInt (body ''productId'') = Some (the (parseInt (body ''productId'')))"
    by (metis option.sel)
  from assms None obtain c where
    c: "i = length A"
      "applyAction (body ''action'') (body ''notes'') t
         \<lparr>a_id = nextId (map a_id A), a_productId = the (parseInt (body ''productId'')),
          a_acknowledged = False, a_acknowledgedAt = None, a_dismissed = False,
          a_dismissedAt = None, a_notes = JStr [], a_createdAt = t, a_updatedAt = None\<rparr>
         = Some c"
      "A1 = A @ [c\<lparr>a_updatedAt := Some t\<rparr>]"
    by (auto simp: alerts_post_memory_def Let_def split: if_splits option.splits)
  from applyAction_keys [OF c(2)] pid
  have "Some (a_productId c) = parseInt (body ''productId'')" by simp
  with None c show ?thesis by (rule created)
next
  case (Some j)
  with assms obtain c where
    c: "i = j" "applyAction (body ''action'') (body ''notes'') t (A ! i) = Some c"
      "A1 = A[i := c\<lparr>a_updatedAt := Some t\<rparr>]"
    by (auto simp: alerts_post_memory_def Let_def split: if_splits option.splits)
  from Some have "Some (a_productId (A ! j)) = parseInt (body ''productId'')"
    by (auto dest: findIndex_SomeD)
  with applyAction_keys [OF c(2)] c(1)
  have "Some (a_productId c) = parseInt (body ''productId'')" by simp
  with Some c show ?thesis by (auto intro: existing)
qed


lemma alerts_post_memory_Inr_guard:
  assumes "alerts_post_memory A ps body t = Inr r"
  shows "truthy (body ''productId'') \<and>
         (\<exists>p. find (\<lambda>p. Some (p_id p) = parseInt (body ''productId'')) ps = Some p)"
  using assms
  by (auto simp: alerts_post_memory_def Let_def split: if_splits option.splits)

lemma alerts_post_memory_existing:
  assumes "truthy (body ''productId'')"
    and "find (\<lambda>p. Some (p_id p) = parseInt (body ''productId'')) ps = Some p"
    and "findIndex (\<lambda>a. Some (a_productId a) = parseInt (body ''productId'')) A = Some i"
    and "applyAction (body ''action'') (body ''notes'') t (A ! i) = Some c"
  shows "alerts_post_memory A ps body t = Inr (A[i := c\<lparr>a_updatedAt := Some t\<rparr>], i)"
  using assms by (simp add: alerts_post_memory_def Let_def)

lemma alerts_post_memory_created:
  assumes "truthy (body ''productId'')"
    and "find (\<lambda>p. Some (p_id p) = parseInt (body ''productId'')) ps = Some p"
    and "findIndex (\<lambda>a. Some (a_productId a) = parseInt (body ''productId'')) A = None"
    and "applyAction (body ''action'') (body ''notes'') t
         \<lparr>a_id = nextId (map a_id A), a_productId = the (parseInt (body ''productId'')),
          a_acknowledged = False, a_acknowledgedAt = None, a_dismissed = False,
          a_dismissedAt = None, a_notes = JStr [], a_createdAt = t, a_updatedAt = None\<rparr>
         = Some c"
  shows "alerts_post_memory A ps body t = Inr (A @ [c\<lparr>a_updatedAt := Some t\<rparr>], length A)"
  using assms by (simp add: alerts_post_memory_def Let_def)

lemma alerts_post_memory_index:
  assumes "alerts_post_memory A ps body t = Inr (A1, i)"
  shows "i < length A1"
  using assms
  by (cases rule: alerts_post_memory_Inr) (auto dest: findIndex_SomeD)

text \<open>The same request once more, on the array the first call has produced.\<close>

lemma alerts_post_memory_twice:
  assumes "alerts_post_memory A ps body t1 = Inr (A1, i)"
  shows "\<exists>A2. alerts_post_memory A1 ps body t2 = Inr (A2, i)
              \<and> map alert_core A2 = map alert_core A1"
proof -
  from alerts_post_memory_Inr_guard [OF assms] obtain p where
    g: "truthy (body ''productId'')"
       "find (\<lambda>p. Some (p_id p) = parseInt (body ''productId'')) ps = Some p"
    by blast
  from assms show ?thesis
  proof (cases rule: alerts_post_memory_Inr)
    case (created c)
    let ?u = "c\<lparr>a_updatedAt := Some t1\<rparr>"
    from created have idx:
      "findIndex (\<lambda>a. Some (a_productId a) = parseInt (body ''productId'')) A1 = Some i"
      by (simp add: findIndex_snoc)
    from created have nth: "A1 ! i = ?u" by simp
    from applyAction_again [OF created(3), of t2 "Some t1"] obtain c' where
      c': "applyAction (body ''action'') (body ''notes'') t2 ?u = Some c'"
          "alert_core c' = alert_core c"
      by blast
    from c'(1) nth have "applyAction (body ''action'') (body ''notes'') t2 (A1 ! i) = Some c'"
      by simp
    from alerts_post_memory_existing [OF g idx this]
    have "alerts_post_memory A1 ps body t2 = Inr (A1[i := c'\<lparr>a_updatedAt := Some t2\<rparr>], i)" .
    moreover from created c'(2)
    have "map alert_core (A1[i := c'\<lparr>a_updatedAt := Some t2\<rparr>]) = map alert_core A1"
      by simp
    ultimately show ?thesis by blast
  next
    case (existing c)
    let ?u = "c\<lparr>a_updatedAt := Some t1\<rparr>"
    from existing(1) have lt: "i < length A"
      and Pi: "Some (a_productId (A ! i)) = parseInt (body ''productId'')"
      by (auto dest: findIndex_SomeD)
    from existing Pi have idx:
      "findIndex (\<lambda>a. Some (a_productId a) = parseInt (body ''productId'')) A1 = Some i"
      by (simp add: findIndex_update)
    from existing lt have nth: "A1 ! i = ?u" by simp
    from applyAction_again [OF existing(2), of t2 "Some t1"] obtain c' where
      c': "applyAction (body ''action'') (body ''notes'') t2 ?u = Some c'"
          "alert_core c' = alert_core c"
      by blast
    from c'(1) nth have "applyAction (body ''action'') (body ''notes'') t2 (A1 ! i) = Some c'"
      by simp
    from alerts_post_memory_existing [OF g idx this]
    have "alerts_post_memory A1 ps body t2 = Inr (A1[i := c'\<lparr>a_updatedAt := Some t2\<rparr>], i)" .
    moreover from existing c'(2) lt
    have "map alert_core (A1[i := c'\<lparr>a_updatedAt := Some t2\<rparr>]) = map alert_core A1"
      by (simp add: map_update)
    ultimately show ?thesis by blast
  qed
qed

text \<open>The same request at another time gives the same records but for their timestamps.\<close>

lemma alerts_post_memory_time:
  assumes "alerts_post_memory A ps body t1 = Inr (A1, i)"
  shows "\<exists>A2. alerts_post_memory A ps body t2 = Inr (A2, i)
              \<and> map alert_core A2 = map alert_core A1"
proof -
  from alerts_post_memory_Inr_guard [OF assms] obtain p where
    g: "truthy (body ''productId'')"
       "find (\<lambda>p. Some (p_id p) = parseInt (body ''productId'')) ps = Some p"
    by blast
  from assms show ?thesis
  proof (cases rule: alerts_post_memory_Inr)
    case (created c)
    let ?new = "\<lambda>t. \<lparr>a_id = nextId (map a_id A),
                      a_productId = the (parseInt (body ''productId'')),
                      a_acknowledged = False, a_acknowledgedAt = None, a_dismissed = False,
                      a_dismissedAt = None, a_notes = JStr [], a_createdAt = t,
                      a_updatedAt = None\<rparr>"
    have "alert_core (?new t2) = alert_core (?new t1)" by (simp add: alert_core_def)
    from applyAction_time [OF created(3) this, of t2] obtain c' where
      c': "applyAction (body ''action'') (body ''notes'') t2 (?new t2) = Some c'"
          "alert_core c' = alert_core c"
      by blast
    from alerts_post_memory_created [OF g created(1) c'(1)] created(2)
    have "alerts_post_memory A ps body t2 = Inr (A @ [c'\<lparr>a_updatedAt := Some t2\<rparr>], i)"
      by simp
    moreover from created c'(2)
    have "map alert_core (A @ [c'\<lparr>a_updatedAt := Some t2\<rparr>]) = map alert_core A1"
      by simp
    ultimately show ?thesis by blast
  next
    case (existing c)
    from applyAction_time [OF existing(2) refl, of t2] obtain c' where
      c': "applyAction (body ''action'') (body ''notes'') t2 (A ! i) = Some c'"
          "alert_core c' = alert_core c"
      by blast
    from alerts_post_memory_existing [OF g existing(1) c'(1)]
    have "alerts_post_memory A ps body t2 = Inr (A[i := c'\<lparr>a_updatedAt := Some t2\<rparr>], i)" .
    moreover from existing c'(2)
    have "map alert_core (A[i := c'\<lparr>a_updatedAt := Some t2\<rparr>]) = map alert_core A1"
      by (simp add: map_update)
    ultimately show ?thesis by blast
  qed
qed

text \<open>A failure depends neither on the records nor on the time.\<close>

lemma alerts_post_memory_Inl:
  assumes "alerts_post_memory A ps body t1 = Inl f"
  shows "alerts_post_memory A' ps body t2 = Inl f"
  using assms
  by (auto simp: alerts_post_memory_def applyAction_def Let_def
        split: if_splits option.splits)

lemma alert_core_nth:
  assumes "map alert_core A2 = map alert_core A1" and "i < length A1"
  shows "alert_core (A2 ! i) = alert_core (A1 ! i)"
proof -
  from assms(1) have "length A2 = length A1" by (rule map_eq_imp_length_eq)
  with assms(2) have "alert_core (A2 ! i) = map alert_core A2 ! i" by simp
  also from assms have "\<dots> = alert_core (A1 ! i)" by simp
  finally show ?thesis .
qed

text \<open>
  C8: the same request applied twice in a row leaves the alert records, timestamps aside,
  as one application does, and the record returned by the second call is, timestamps
  aside, the record returned by the first. The two writes may succeed or not
  independently; the single application compared with is one whose write succeeds if one
  of the two does. With a writable store this is the state after one call. The statement
  holds for every request, so for each of the five actions and every product.
\<close>

theorem alert_action_idempotent:
  "map alert_core (alerts (snd (alerts_post (snd (alerts_post d body t1 w1)) body t2 w2)))
     = map alert_core (alerts (snd (alerts_post d body t1 (w1 \<or> w2)))) \<and>
   map_sum id (alert_core \<circ> r_alert)
       (fst (alerts_post (snd (alerts_post d body t1 w1)) body t2 w2))
     = map_sum id (alert_core \<circ> r_alert) (fst (alerts_post d body t1 w1))"
proof (cases "alerts_post_memory (alerts d) (products d) body t1")
  case (Inl f)
  then have "alerts_post_memory (alerts d) (products d) body t = Inl f" for t
    by (rule alerts_post_memory_Inl)
  then have "alerts_post d body t w = (Inl f, d)" for t w
    by (simp add: alerts_post_def)
  then show ?thesis by simp
next
  case (Inr r)
  obtain A1 i where r: "r = (A1, i)" by (cases r)
  with Inr have first: "alerts_post_memory (alerts d) (products d) body t1 = Inr (A1, i)"
    by simp
  from alerts_post_memory_twice [OF first, of t2] obtain A2 where
    twice: "alerts_post_memory A1 (products d) body t2 = Inr (A2, i)"
           "map alert_core A2 = map alert_core A1"
    by blast
  from alerts_post_memory_time [OF first, of t2] obtain A1' where
    later: "alerts_post_memory (alerts d) (products d) body t2 = Inr (A1', i)"
           "map alert_core A1' = map alert_core A1"
    by blast
  from first have lt: "i < length A1" by (rule alerts_post_memory_index)
  note cores = alert_core_nth [OF twice(2) lt] alert_core_nth [OF later(2) lt]
  show ?thesis
  proof (cases w1)
    case True
    with first twice cores show ?thesis
      by (simp add: alerts_post_def)
  next
    case False
    with first later cores show ?thesis
      by (simp add: alerts_post_def)
  qed
qed

theorem alert_action_idempotent_witness:
  "map alert_core
     (alerts (snd (alerts_post (snd (alerts_post example_db (emptyBody(''productId'' := JStr ''2'', ''action'' := JStr ''acknowledge'')) ''t1'' True)) (emptyBody(''productId'' := JStr ''2'', ''action'' := JStr ''acknowledge'')) ''t2'' True)))
   = [(1, 2, True, True, False, False, JStr [])]"
proof -
  have "map alert_core (alerts (snd (alerts_post example_db (emptyBody(''productId'' := JStr ''2'', ''action'' := JStr ''acknowledge'')) ''t1'' True)))
          = [(1, 2, True, True, False, False, JStr [])]"
    by code_simp
  with alert_action_idempotent [of example_db "emptyBody(''productId'' := JStr ''2'', ''action'' := JStr ''acknowledge'')" "''t1''" True "''t2''" True]
  show ?thesis by simp
qed

end
